theory Spec2Isabelle
  imports Main
begin

section \<open>The JavaScript runtime as far as objectExpression.js uses it\<close>

text \<open>
  Strings are lists of code units; the model covers the code units below 256, one
  \<^typ>\<open>char\<close> each. The regular expression \<^verbatim>\<open>\s\<close>, \<^verbatim>\<open>trim\<close> and the numeric
  conversions agree on what white space is: tab, line feed, vertical tab, form feed,
  carriage return, space and the no-break space are the ones below 256.
\<close>

definition isWhitespaceChar :: "char \<Rightarrow> bool" where
  "isWhitespaceChar c = (of_char c \<in> {9, 10, 11, 12, 13, 32, 160 :: nat})"

definition trim :: "string \<Rightarrow> string" where
  "trim s = rev (dropWhile isWhitespaceChar (rev (dropWhile isWhitespaceChar s)))"

text \<open>
  \<^verbatim>\<open>s.split(/\s+/)\<close>: the pieces between the maximal runs of white space. A run at the
  start or at the end of the string leaves an empty piece there, and the empty string
  splits into one empty piece.
\<close>

function split_ws :: "string \<Rightarrow> string \<Rightarrow> string list" where
  "split_ws cur [] = [cur]"
| "split_ws cur (c # cs) =
     (if isWhitespaceChar c then cur # split_ws [] (dropWhile isWhitespaceChar cs)
      else split_ws (cur @ [c]) cs)"
  by pat_completeness auto
termination
  by (relation "measure (\<lambda>(cur, s). length s)")
     (auto simp: length_dropWhile_le le_imp_less_Suc)

subsection \<open>Numbers\<close>

text \<open>
  The numbers the program stores in a constant node: the results of \<^verbatim>\<open>parseInt\<close> (not a
  number, an infinity, or an integer, where \<open>Num True 0\<close> is the negative zero), the
  operand count of a node, and \<^verbatim>\<open>Math.E\<close>. The flag is the sign: \<open>True\<close> for minus. The
  magnitude of \<open>Num\<close> is a nonnegative integer that a double holds exactly.
\<close>

datatype jsnum = NaN | Infinity bool | Num bool nat | MathE

definition ZERO :: jsnum where "ZERO = Num False 0"
definition ONE :: jsnum where "ONE = Num False 1"
definition TWO :: jsnum where "TWO = Num False 2"

fun bitlen :: "nat \<Rightarrow> nat" where
  "bitlen n = (if n = 0 then 0 else Suc (bitlen (n div 2)))"

declare bitlen.simps [simp del]

text \<open>
  The integer that the double nearest to \<open>n\<close> holds (53 bits of mantissa, ties to the
  even mantissa). From \<open>2 ^ 1024\<close> on the double is an infinity.
\<close>

definition round53 :: "nat \<Rightarrow> nat" where
  "round53 n =
     (if n < 2 ^ 53 then n
      else let e = bitlen n - 53;
               q = n div 2 ^ e;
               r = n mod 2 ^ e;
               h = 2 ^ (e - 1)
           in (if h < r \<or> (r = h \<and> odd q) then q + 1 else q) * 2 ^ e)"

definition toDouble :: "bool \<Rightarrow> nat \<Rightarrow> jsnum" where
  "toDouble neg n =
     (if n < 2 ^ 53 then Num neg n
      else let m = round53 n in if 2 ^ 1024 \<le> m then Infinity neg else Num neg m)"

subsection \<open>Digits\<close>

definition isDigit :: "char \<Rightarrow> bool" where
  "isDigit c = (48 \<le> (of_char c :: nat) \<and> (of_char c :: nat) \<le> 57)"

definition digitValue :: "char \<Rightarrow> nat" where
  "digitValue c = of_char c - 48"

text \<open>The character of a digit \<open>d < 10\<close>.\<close>

definition digitChar :: "nat \<Rightarrow> char" where
  "digitChar d = ''0123456789'' ! d"

definition isHexDigit :: "char \<Rightarrow> bool" where
  "isHexDigit c = (isDigit c \<or> (65 \<le> (of_char c :: nat) \<and> (of_char c :: nat) \<le> 70)
                     \<or> (97 \<le> (of_char c :: nat) \<and> (of_char c :: nat) \<le> 102))"

definition hexValue :: "char \<Rightarrow> nat" where
  "hexValue c = (if isDigit c then of_char c - 48
                 else if of_char c \<le> (70 :: nat) then of_char c - 55
                 else of_char c - 87)"

definition isOctalDigit :: "char \<Rightarrow> bool" where
  "isOctalDigit c = (48 \<le> (of_char c :: nat) \<and> (of_char c :: nat) \<le> 55)"

definition isBinaryDigit :: "char \<Rightarrow> bool" where
  "isBinaryDigit c = (c = CHR ''0'' \<or> c = CHR ''1'')"

definition decimalValue :: "string \<Rightarrow> nat" where
  "decimalValue ds = foldl (\<lambda>a c. 10 * a + digitValue c) 0 ds"

definition hexadecimalValue :: "string \<Rightarrow> nat" where
  "hexadecimalValue ds = foldl (\<lambda>a c. 16 * a + hexValue c) 0 ds"

text \<open>The decimal digits of a natural number, as \<^verbatim>\<open>toString\<close> and string concatenation
  write an array length or a position.\<close>

fun decimal :: "nat \<Rightarrow> string" where
  "decimal n = (if n < 10 then [digitChar n] else decimal (n div 10) @ [digitChar (n mod 10)])"

declare decimal.simps [simp del]

subsection \<open>\<^verbatim>\<open>isNaN\<close> of a string\<close>

text \<open>
  \<^verbatim>\<open>isNaN(token)\<close> converts the string to a number first. The conversion trims white space
  and gives a number for the empty string (zero), for a decimal literal (an optional
  sign, then \<^verbatim>\<open>Infinity\<close> or digits with an optional fraction and an optional exponent)
  and for an unsigned binary, octal or hexadecimal literal; every other string gives
  not-a-number.
\<close>

definition allDigits1 :: "string \<Rightarrow> bool" where
  "allDigits1 s = (s \<noteq> [] \<and> list_all isDigit s)"

definition signedInteger :: "string \<Rightarrow> bool" where
  "signedInteger s =
     (case s of [] \<Rightarrow> False
      | c # r \<Rightarrow> if c = CHR ''+'' \<or> c = CHR ''-'' then allDigits1 r else allDigits1 s)"

definition exponentPartOpt :: "string \<Rightarrow> bool" where
  "exponentPartOpt s =
     (case s of [] \<Rightarrow> True
      | c # r \<Rightarrow> (c = CHR ''e'' \<or> c = CHR ''E'') \<and> signedInteger r)"

definition strUnsignedDecimalLiteral :: "string \<Rightarrow> bool" where
  "strUnsignedDecimalLiteral s =
     (s = ''Infinity'' \<or>
      (let ds = takeWhile isDigit s; r = dropWhile isDigit s
       in if ds \<noteq> [] then
            (case r of [] \<Rightarrow> True
             | c # r' \<Rightarrow> if c = CHR ''.'' then exponentPartOpt (dropWhile isDigit r')
                         else exponentPartOpt r)
          else
            (case r of [] \<Rightarrow> False
             | c # r' \<Rightarrow> c = CHR ''.'' \<and> takeWhile isDigit r' \<noteq> []
                          \<and> exponentPartOpt (dropWhile isDigit r'))))"

definition strDecimalLiteral :: "string \<Rightarrow> bool" where
  "strDecimalLiteral s =
     (case s of [] \<Rightarrow> False
      | c # r \<Rightarrow> if c = CHR ''+'' \<or> c = CHR ''-'' then strUnsignedDecimalLiteral r
                  else strUnsignedDecimalLiteral s)"

definition nonDecimalIntegerLiteral :: "string \<Rightarrow> bool" where
  "nonDecimalIntegerLiteral s =
     (case s of
        c0 # c1 # r \<Rightarrow>
          c0 = CHR ''0'' \<and> r \<noteq> [] \<and>
          ((c1 = CHR ''x'' \<or> c1 = CHR ''X'') \<and> list_all isHexDigit r
           \<or> (c1 = CHR ''o'' \<or> c1 = CHR ''O'') \<and> list_all isOctalDigit r
           \<or> (c1 = CHR ''b'' \<or> c1 = CHR ''B'') \<and> list_all isBinaryDigit r)
      | _ \<Rightarrow> False)"

definition isNaN :: "string \<Rightarrow> bool" where
  "isNaN s = (let t = trim s in \<not> (t = [] \<or> strDecimalLiteral t \<or> nonDecimalIntegerLiteral t))"

subsection \<open>\<^verbatim>\<open>parseInt\<close> with one argument\<close>

text \<open>
  Leading white space is skipped, a sign is read, a prefix \<^verbatim>\<open>0x\<close> or \<^verbatim>\<open>0X\<close> selects
  radix 16, and the longest run of digits of the radix is the value; with no digit the
  result is not-a-number. What follows the digits is ignored. The value is rounded to
  the nearest double; the model rounds the exact value, also where the language lets an
  implementation round a decimal value after its 20th significant digit first.
\<close>

definition parseInt :: "string \<Rightarrow> jsnum" where
  "parseInt s =
     (let S = dropWhile isWhitespaceChar s;
          neg = (S \<noteq> [] \<and> hd S = CHR ''-'');
          S1 = (if S \<noteq> [] \<and> (hd S = CHR ''+'' \<or> hd S = CHR ''-'') then tl S else S)
      in if take 2 S1 = ''0x'' \<or> take 2 S1 = ''0X'' then
           (let Z = takeWhile isHexDigit (drop 2 S1)
            in if Z = [] then NaN else toDouble neg (hexadecimalValue Z))
         else
           (let Z = takeWhile isDigit S1
            in if Z = [] then NaN else toDouble neg (decimalValue Z)))"

subsection \<open>\<^verbatim>\<open>toString\<close> of a number\<close>

text \<open>
  The digits \<open>s\<close> (with \<open>k\<close> digits) and the exponent \<open>N\<close> of a positive integer double
  \<open>n\<close>: \<open>s * 10 ^ (N - k)\<close> reads back as \<open>n\<close>, with \<open>k\<close> as small as possible and,
  for that \<open>k\<close>, the candidate nearest to \<open>n\<close>.
\<close>

definition digitsCandidates :: "nat \<Rightarrow> nat \<Rightarrow> (nat \<times> nat) list" where
  "digitsCandidates n k =
     concat (map (\<lambda>N. map (\<lambda>s. (s, N))
                   (filter (\<lambda>s. k \<le> N \<and> 10 ^ (k - 1) \<le> s \<and> s < 10 ^ k
                                \<and> round53 (s * 10 ^ (N - k)) = n)
                      [n div 10 ^ (N - k), n div 10 ^ (N - k) + 1]))
              [length (decimal n), length (decimal n) + 1])"

definition distance :: "nat \<Rightarrow> nat \<Rightarrow> nat \<times> nat \<Rightarrow> nat" where
  "distance n k c = (let v = fst c * 10 ^ (snd c - k) in if v < n then n - v else v - n)"

definition nearest :: "nat \<Rightarrow> nat \<Rightarrow> (nat \<times> nat) list \<Rightarrow> nat \<times> nat" where
  "nearest n k cs =
     foldl (\<lambda>a c. if distance n k c < distance n k a
                      \<or> (distance n k c = distance n k a \<and> even (fst c) \<and> odd (fst a))
                   then c else a) (hd cs) (tl cs)"

definition shortestDigits :: "nat \<Rightarrow> nat \<times> nat \<times> nat" where
  "shortestDigits n =
     (case List.find (\<lambda>k. digitsCandidates n k \<noteq> []) [1 ..< Suc (length (decimal n))] of
        None \<Rightarrow> (n, length (decimal n), length (decimal n))
      | Some k \<Rightarrow> (case nearest n k (digitsCandidates n k) of (s, N) \<Rightarrow> (s, N, k)))"

text \<open>
  Below \<open>2 ^ 53\<close> every integer is a double and its digits are its own. From there on
  the digits are the shortest ones; an exponent above 21 switches to the exponential
  form.
\<close>

definition positiveToString :: "nat \<Rightarrow> string" where
  "positiveToString n =
     (if n < 2 ^ 53 then decimal n
      else case shortestDigits n of (s, N, k) \<Rightarrow>
        if N \<le> 21 then decimal s @ replicate (N - k) (CHR ''0'')
        else (if k = 1 then decimal s else hd (decimal s) # CHR ''.'' # tl (decimal s))
               @ ''e+'' @ decimal (N - 1))"

fun numToString :: "jsnum \<Rightarrow> string" where
  "numToString NaN = ''NaN''"
| "numToString (Infinity neg) = (if neg then ''-Infinity'' else ''Infinity'')"
| "numToString MathE = ''2.718281828459045''"
| "numToString (Num neg n) =
     (if n = 0 then ''0'' else (if neg then ''-'' else []) @ positiveToString n)"

subsection \<open>Arrays\<close>

text \<open>\<^verbatim>\<open>vars.indexOf(name)\<close>: the first index of the name, or \<open>-1\<close>.\<close>

fun indexOf :: "'a list \<Rightarrow> 'a \<Rightarrow> int" where
  "indexOf [] x = -1"
| "indexOf (y # ys) x = (if y = x then 0 else let i = indexOf ys x in if i < 0 then -1 else i + 1)"

text \<open>\<^verbatim>\<open>a.join(" ")\<close>.\<close>

fun join :: "string list \<Rightarrow> string" where
  "join [] = []"
| "join [s] = s"
| "join (s # t # ts) = s @ '' '' @ join (t # ts)"

text \<open>
  \<^verbatim>\<open>stack.splice(stack.length - arity)\<close> removes the elements from a start index on and
  returns them. An undefined arity makes the argument not-a-number, which counts as 0; a
  negative argument counts from the end of the array, and not below 0. The result is the
  pair of what remains in the array and what was removed.
\<close>

definition spliceStart :: "nat \<Rightarrow> nat option \<Rightarrow> nat" where
  "spliceStart len arity =
     (case arity of None \<Rightarrow> 0
      | Some a \<Rightarrow> (let relativeStart = int len - int a
                   in if relativeStart < 0 then nat (max (int len + relativeStart) 0)
                      else min (nat relativeStart) len))"

definition splice_js :: "'a list \<Rightarrow> nat option \<Rightarrow> 'a list \<times> 'a list" where
  "splice_js stack arity =
     (let actualStart = spliceStart (length stack) arity
      in (take actualStart stack, drop actualStart stack))"

section \<open>Expression nodes\<close>

text \<open>
  The classes made by \<^verbatim>\<open>createOperation\<close>, each with its \<^verbatim>\<open>operationString\<close> and its
  \<^verbatim>\<open>arity\<close>, the number of declared parameters of its evaluation function: 0 for the two
  functions that take a rest parameter.
\<close>

datatype opsym = Add | Subtract | Negate | Multiply | Divide | Pow | Log | Mean | Var

fun operationString :: "opsym \<Rightarrow> string" where
  "operationString Add = ''+''"
| "operationString Subtract = ''-''"
| "operationString Negate = ''negate''"
| "operationString Multiply = ''*''"
| "operationString Divide = ''/''"
| "operationString Pow = ''pow''"
| "operationString Log = ''log''"
| "operationString Mean = ''mean''"
| "operationString Var = ''var''"

fun arity :: "opsym \<Rightarrow> nat" where
  "arity Add = 2"
| "arity Subtract = 2"
| "arity Negate = 1"
| "arity Multiply = 2"
| "arity Divide = 2"
| "arity Pow = 2"
| "arity Log = 2"
| "arity Mean = 0"
| "arity Var = 0"

text \<open>
  A node is a constant, a variable or an operation with its operands. \<open>PlainObject\<close> is
  an object with none of the node methods: the flat parser can put one on its stack
  (see \<open>construct\<close> below), the other two parsers never do.
\<close>

datatype node = Const jsnum | Variable string | Operation opsym "node list" | PlainObject

definition vars :: "string list" where
  "vars = [''x'', ''y'', ''z'']"

datatype error =
    InvalidFormatError string "nat option"
  | InvalidOperationError string "nat option"
  | TypeError



definition bind :: "error + 'a \<Rightarrow> ('a \<Rightarrow> error + 'b) \<Rightarrow> error + 'b" where
  "bind m f = (case m of Inl e \<Rightarrow> Inl e | Inr x \<Rightarrow> f x)"

fun sequence :: "(error + 'a) list \<Rightarrow> error + 'a list" where
  "sequence [] = Inr []"
| "sequence (m # ms) = bind m (\<lambda>x. bind (sequence ms) (\<lambda>xs. Inr (x # xs)))"

subsection \<open>Rendering\<close>

fun prefix :: "node \<Rightarrow> error + string" where
  "prefix (Const v) = Inr (numToString v)"
| "prefix (Variable name) = Inr name"
| "prefix (Operation f operands) =
     bind (sequence (map prefix operands))
       (\<lambda>ss. Inr (''('' @ operationString f @ '' '' @ join ss @ '')''))"
| "prefix PlainObject = Inl TypeError"

fun postfix :: "node \<Rightarrow> error + string" where
  "postfix (Const v) = Inr (numToString v)"
| "postfix (Variable name) = Inr name"
| "postfix (Operation f operands) =
     bind (sequence (map postfix operands))
       (\<lambda>ss. Inr (''('' @ join ss @ '' '' @ operationString f @ '')''))"
| "postfix PlainObject = Inl TypeError"

subsection \<open>Evaluation\<close>

text \<open>
  A value is \<^verbatim>\<open>undefined\<close>, a number of a constant node, or any other value (\<open>Other\<close>:
  the doubles that are not in \<^typ>\<open>jsnum\<close>, among them). The evaluation functions of the
  operations compute in double precision; they are the parameter \<open>operation\<close>, and what is
  proved about \<open>evaluate\<close> holds for every such table.
\<close>

datatype 'v jsvalue = Undefined | Number jsnum | Other 'v

definition at_index :: "'v jsvalue list \<Rightarrow> int \<Rightarrow> 'v jsvalue" where
  "at_index varValues i =
     (if 0 \<le> i \<and> nat i < length varValues then varValues ! nat i else Undefined)"

text \<open>The method \<^verbatim>\<open>evaluate\<close> of a constant, and the one of a variable.\<close>

definition evaluateConst :: "jsnum \<Rightarrow> 'v jsvalue list \<Rightarrow> error + 'v jsvalue" where
  "evaluateConst v varValues = Inr (Number v)"

definition evaluateVariable :: "string \<Rightarrow> 'v jsvalue list \<Rightarrow> error + 'v jsvalue" where
  "evaluateVariable varName varValues = Inr (at_index varValues (indexOf vars varName))"

fun evaluate :: "(opsym \<Rightarrow> 'v jsvalue list \<Rightarrow> 'v jsvalue) \<Rightarrow> node \<Rightarrow> 'v jsvalue list
                  \<Rightarrow> error + 'v jsvalue" where
  "evaluate operation (Const v) varValues = evaluateConst v varValues"
| "evaluate operation (Variable varName) varValues = evaluateVariable varName varValues"
| "evaluate operation (Operation f operands) varValues =
     bind (sequence (map (\<lambda>operand. evaluate operation operand varValues) operands))
       (\<lambda>vs. Inr (operation f vs))"
| "evaluate operation PlainObject varValues = Inl TypeError"

subsection \<open>Differentiation\<close>

definition Square :: "node \<Rightarrow> node" where
  "Square x = Operation Multiply [x, x]"

text \<open>\<^verbatim>\<open>args.reduce((x, y) => new Add(x, y), Const.ZERO)\<close>.\<close>

definition sumOfOperands :: "node list \<Rightarrow> node" where
  "sumOfOperands args = foldl (\<lambda>x y. Operation Add [x, y]) (Const ZERO) args"

text \<open>The measure under which every call of \<open>diff\<close> inside \<open>diff\<close> is on a smaller
  tree: the rewritten trees of \<open>Mean\<close> and \<open>Var\<close> count too.\<close>

fun weight :: "node \<Rightarrow> nat" where
  "weight (Const v) = 1"
| "weight (Variable name) = 1"
| "weight PlainObject = 1"
| "weight (Operation f operands) =
     (if f = Mean then 2 + sum_list (map (\<lambda>x. 1 + weight x) operands)
      else if f = Var then 9 + 4 * sum_list (map (\<lambda>x. 1 + weight x) operands)
      else 1 + sum_list (map weight operands))"

lemma bind_cong [fundef_cong]:
  "m = m' \<Longrightarrow> (\<And>x. m' = Inr x \<Longrightarrow> f x = f' x) \<Longrightarrow> bind m f = bind m' f'"
  by (cases m') (simp_all add: bind_def)

lemma weight_sumOfOperands_aux:
  "weight (foldl (\<lambda>x y. Operation Add [x, y]) a args)
     = weight a + sum_list (map (\<lambda>x. 1 + weight x) args)"
  by (induction args arbitrary: a) simp_all

lemma weight_sumOfOperands:
  "weight (sumOfOperands args) = 1 + sum_list (map (\<lambda>x. 1 + weight x) args)"
  by (simp add: sumOfOperands_def weight_sumOfOperands_aux)

lemma weight_map_Square:
  "sum_list (map ((\<lambda>x. Suc (weight x)) \<circ> Square) args)
     = 2 * sum_list (map (\<lambda>x. Suc (weight x)) args)"
  by (induction args) (simp_all add: Square_def)

text \<open>
  Each operation differentiates by the rule given to \<^verbatim>\<open>createOperation\<close>; the rule takes
  its operands by position, and calling \<^verbatim>\<open>diff\<close> on a missing operand or on an object
  without that method is a type error.
\<close>

function diff :: "node \<Rightarrow> string \<Rightarrow> error + node" where
  "diff (Const v) varName = Inr (Const ZERO)"
| "diff (Variable name) varName = Inr (if varName = name then Const ONE else Const ZERO)"
| "diff PlainObject varName = Inl TypeError"
| "diff (Operation Add args) varName =
     (case args of
        x # y # _ \<Rightarrow>
          bind (diff x varName) (\<lambda>dx. bind (diff y varName) (\<lambda>dy.
            Inr (Operation Add [dx, dy])))
      | _ \<Rightarrow> Inl TypeError)"
| "diff (Operation Subtract args) varName =
     (case args of
        x # y # _ \<Rightarrow>
          bind (diff x varName) (\<lambda>dx. bind (diff y varName) (\<lambda>dy.
            Inr (Operation Subtract [dx, dy])))
      | _ \<Rightarrow> Inl TypeError)"
| "diff (Operation Negate args) varName =
     (case args of
        x # _ \<Rightarrow> bind (diff x varName) (\<lambda>dx. Inr (Operation Negate [dx]))
      | _ \<Rightarrow> Inl TypeError)"
| "diff (Operation Multiply args) varName =
     (case args of
        x # y # _ \<Rightarrow>
          bind (diff x varName) (\<lambda>dx. bind (diff y varName) (\<lambda>dy.
            Inr (Operation Add [Operation Multiply [dx, y], Operation Multiply [x, dy]])))
      | _ \<Rightarrow> Inl TypeError)"
| "diff (Operation Divide args) varName =
     (case args of
        x # y # _ \<Rightarrow>
          bind (diff x varName) (\<lambda>dx. bind (diff y varName) (\<lambda>dy.
            Inr (Operation Divide
                   [Operation Subtract [Operation Multiply [dx, y], Operation Multiply [x, dy]],
                    Operation Multiply [y, y]])))
      | _ \<Rightarrow> Inl TypeError)"
| "diff (Operation Pow args) varName =
     (case args of
        x # y # _ \<Rightarrow>
          bind (diff x varName) (\<lambda>dx. bind (diff y varName) (\<lambda>dy.
            Inr (Operation Multiply
                   [Operation Pow [x, Operation Subtract [y, Const ONE]],
                    Operation Add
                      [Operation Multiply [y, dx],
                       Operation Multiply
                         [Operation Multiply [x, dy], Operation Log [Const MathE, x]]]])))
      | _ \<Rightarrow> Inl TypeError)"
| "diff (Operation Log args) varName =
     (case args of
        x # y # _ \<Rightarrow>
          bind (diff y varName) (\<lambda>dy. bind (diff x varName) (\<lambda>dx.
            Inr (Operation Divide
                   [Operation Subtract
                      [Operation Multiply
                         [Operation Multiply [Operation Log [Const MathE, x], dy],
                          Operation Divide [Const ONE, y]],
                       Operation Multiply
                         [Operation Multiply [Operation Log [Const MathE, y], dx],
                          Operation Divide [Const ONE, x]]],
                    Operation Multiply
                      [Operation Log [Const MathE, x], Operation Log [Const MathE, x]]])))
      | _ \<Rightarrow> Inl TypeError)"
| "diff (Operation Mean args) varName =
     bind (diff (sumOfOperands args) varName)
       (\<lambda>d. Inr (Operation Divide [d, Const (Num False (length args))]))"
| "diff (Operation Var args) varName =
     diff (Operation Subtract [Operation Mean (map Square args), Square (Operation Mean args)])
       varName"
  by pat_completeness auto
termination
  by (relation "measure (\<lambda>(n, v). weight n)")
     (auto simp: weight_sumOfOperands weight_map_Square Square_def)

section \<open>The table of operations\<close>

text \<open>
  \<^verbatim>\<open>operations\<close> is an object literal filled by \<^verbatim>\<open>createOperation\<close>. Both
  \<^verbatim>\<open>token in operations\<close> and \<^verbatim>\<open>operations[token]\<close> also find the properties that every
  object inherits from \<^verbatim>\<open>Object.prototype\<close>: \<^verbatim>\<open>constructor\<close>, which is \<^verbatim>\<open>Object\<close>, and
  the others, which are not constructors. None of them has a property \<^verbatim>\<open>arity\<close>.
\<close>

datatype property = Registered opsym | ObjectConstructor | NotAConstructor

definition operationsTable :: "(string \<times> property) list" where
  "operationsTable =
     [(''+'', Registered Add), (''-'', Registered Subtract), (''negate'', Registered Negate),
      (''*'', Registered Multiply), (''/'', Registered Divide), (''pow'', Registered Pow),
      (''log'', Registered Log), (''mean'', Registered Mean), (''var'', Registered Var),
      (''constructor'', ObjectConstructor),
      (''__defineGetter__'', NotAConstructor), (''__defineSetter__'', NotAConstructor),
      (''hasOwnProperty'', NotAConstructor), (''__lookupGetter__'', NotAConstructor),
      (''__lookupSetter__'', NotAConstructor), (''isPrototypeOf'', NotAConstructor),
      (''propertyIsEnumerable'', NotAConstructor), (''toString'', NotAConstructor),
      (''valueOf'', NotAConstructor), (''__proto__'', NotAConstructor),
      (''toLocaleString'', NotAConstructor)]"

definition operations :: "string \<Rightarrow> property option" where
  "operations token = map_of operationsTable token"

text \<open>\<^verbatim>\<open>operations[token].arity\<close>; \<open>None\<close> is \<^verbatim>\<open>undefined\<close>.\<close>

definition arityOf :: "string \<Rightarrow> nat option" where
  "arityOf token = (case operations token of Some (Registered f) \<Rightarrow> Some (arity f) | _ \<Rightarrow> None)"

text \<open>
  \<^verbatim>\<open>new operations[token](...operands)\<close>. A registered class makes its node; \<^verbatim>\<open>Object\<close>
  returns its first argument when there is one and a new empty object otherwise; anything
  else is not a constructor.
\<close>

fun construct :: "property option \<Rightarrow> node list \<Rightarrow> error + node" where
  "construct (Some (Registered f)) operands = Inr (Operation f operands)"
| "construct (Some ObjectConstructor) operands =
     Inr (case operands of [] \<Rightarrow> PlainObject | a # _ \<Rightarrow> a)"
| "construct (Some NotAConstructor) operands = Inl TypeError"
| "construct None operands = Inl TypeError"

section \<open>The parser of bracketed expressions\<close>

text \<open>
  \<^verbatim>\<open>parseWithBrackets(operationAtStart)\<close> reads \<^verbatim>\<open>expression\<close> with a cursor \<^verbatim>\<open>start\<close>.
  The cursor of the model is the pair of \<^verbatim>\<open>start\<close> and the characters from \<^verbatim>\<open>start\<close>
  to \<^verbatim>\<open>end\<close>: the test \<^verbatim>\<open>start <= end\<close> is that this list is not empty, and
  \<^verbatim>\<open>expression[start]\<close> is its head.
\<close>

type_synonym cursor = "nat \<times> string"

fun skipWhitespaces :: "cursor \<Rightarrow> cursor" where
  "skipWhitespaces (start, []) = (start, [])"
| "skipWhitespaces (start, c # cs) =
     (if isWhitespaceChar c then skipWhitespaces (Suc start, cs) else (start, c # cs))"

text \<open>What \<^verbatim>\<open>parseToken\<close> returns: a node, or the string of an operation.\<close>

datatype token = Tree node | OperationString string

definition tokenChar :: "char \<Rightarrow> bool" where
  "tokenChar c = (\<not> isWhitespaceChar c \<and> c \<noteq> CHR ''('' \<and> c \<noteq> CHR '')'')"

text \<open>The part of \<^verbatim>\<open>parseToken\<close> that reads a token which does not start a bracket.\<close>

definition parseLiteral :: "cursor \<Rightarrow> error + token \<times> cursor" where
  "parseLiteral cur =
     (let startPos = fst cur;
          token = takeWhile tokenChar (snd cur);
          cur' = (startPos + length token, dropWhile tokenChar (snd cur))
      in if token = [] then Inl (InvalidFormatError ''Empty token'' (Some startPos))
         else if token \<in> set vars then Inr (Tree (Variable token), cur')
         else if \<not> isNaN token then Inr (Tree (Const (parseInt token)), cur')
         else if operations token \<noteq> None then Inr (OperationString token, cur')
         else Inl (InvalidFormatError (''Unknown token: '' @ token) (Some startPos)))"

text \<open>
  The part of \<^verbatim>\<open>parseOperation\<close> after the closing bracket: the checks on the operation
  strings and operands that were collected, and the construction of the node.
\<close>

definition buildOperation :: "bool \<Rightarrow> nat \<Rightarrow> node list \<Rightarrow> (string \<times> nat) list \<Rightarrow> error + node" where
  "buildOperation operationAtStart startPos tokens operationStrings =
     (if length operationStrings \<noteq> 1 then
        Inl (InvalidOperationError
               (''Invalid expression (expected one operation per (...) block but parsed ''
                  @ decimal (length operationStrings) @ '' operations)'')
               (Some startPos))
      else
        let operationString = fst (hd operationStrings)
        in if snd (hd operationStrings) \<noteq> (if operationAtStart then 0 else length tokens) then
             Inl (InvalidOperationError
                    (''Invalid operation position (operation: '' @ operationString @ '')'')
                    (Some startPos))
           else if tokens = [] \<or> (arityOf operationString \<noteq> Some 0
                                     \<and> arityOf operationString \<noteq> Some (length tokens)) then
             Inl (InvalidOperationError
                    (''Invalid amount of arguments ('' @ decimal (length tokens)
                       @ '') for operation '' @ operationString)
                    (Some startPos))
           else construct (operations operationString) tokens)"

text \<open>
  \<open>parseOperation\<close> is the loop of \<^verbatim>\<open>parseOperation\<close> and what follows it, with the
  local variables \<^verbatim>\<open>startPos\<close>, \<^verbatim>\<open>tokens\<close> and \<^verbatim>\<open>operationStrings\<close> as arguments;
  \<open>parseToken\<close> enters it behind the opening bracket and the white space after it.
\<close>

function parseToken :: "bool \<Rightarrow> cursor \<Rightarrow> error + token \<times> cursor"
  and parseOperation :: "bool \<Rightarrow> nat \<Rightarrow> node list \<Rightarrow> (string \<times> nat) list \<Rightarrow> cursor
                           \<Rightarrow> error + token \<times> cursor" where
  "parseToken operationAtStart (start, []) = parseLiteral (start, [])"
| "parseToken operationAtStart (start, c # cs) =
     (if c = CHR ''('' then
        parseOperation operationAtStart start [] [] (skipWhitespaces (Suc start, cs))
      else parseLiteral (start, c # cs))"
| "parseOperation operationAtStart startPos tokens operationStrings (start, []) =
     Inl (InvalidFormatError '') expected'' (Some start))"
| "parseOperation operationAtStart startPos tokens operationStrings (start, c # cs) =
     (if c = CHR '')'' then
        (case buildOperation operationAtStart startPos tokens operationStrings of
           Inl e \<Rightarrow> Inl e
         | Inr res \<Rightarrow> Inr (Tree res, (Suc start, cs)))
      else
        (case parseToken operationAtStart (start, c # cs) of
           Inl e \<Rightarrow> Inl e
         | Inr (OperationString curToken, cur) \<Rightarrow>
             parseOperation operationAtStart startPos tokens
               (operationStrings @ [(curToken, length tokens)]) (skipWhitespaces cur)
         | Inr (Tree curToken, cur) \<Rightarrow>
             parseOperation operationAtStart startPos (tokens @ [curToken]) operationStrings
               (skipWhitespaces cur)))"
  by pat_completeness auto

lemma length_skipWhitespaces: "length (snd (skipWhitespaces cur)) \<le> length (snd cur)"
proof (induction cur rule: skipWhitespaces.induct)
  case (1 start)
  show ?case by simp
next
  case (2 start c cs)
  then show ?case by auto
qed

lemma parseLiteral_consumes:
  "parseLiteral cur = Inr (t, cur') \<Longrightarrow> length (snd cur') < length (snd cur)"
proof -
  assume a: "parseLiteral cur = Inr (t, cur')"
  have ne: "takeWhile tokenChar (snd cur) \<noteq> []"
    using a by (auto simp: parseLiteral_def Let_def split: if_splits)
  have c: "snd cur' = dropWhile tokenChar (snd cur)"
    using a by (auto simp: parseLiteral_def Let_def split: if_splits)
  have "length (takeWhile tokenChar (snd cur)) + length (dropWhile tokenChar (snd cur))
          = length (snd cur)"
    by (metis length_append takeWhile_dropWhile_id)
  with ne c show ?thesis by (cases "takeWhile tokenChar (snd cur)") auto
qed

lemma parse_consumes_dom:
  "parseToken_parseOperation_dom (Inl (b, cur)) \<Longrightarrow>
     parseToken b cur = Inr (t, cur') \<Longrightarrow> length (snd cur') < length (snd cur)"
  "parseToken_parseOperation_dom (Inr (b, sp, ts, ops, cur)) \<Longrightarrow>
     parseOperation b sp ts ops cur = Inr (t, cur') \<Longrightarrow> length (snd cur') < length (snd cur)"
proof (induction b cur and b sp ts ops cur arbitrary: t cur' and t cur'
       rule: parseToken_parseOperation.pinduct)
  case (1 operationAtStart start)
  then show ?case
    using parseLiteral_consumes [of "(start, [])" t cur'] by (simp add: parseToken.psimps)
next
  case (2 operationAtStart start c cs)
  show ?case
  proof (cases "c = CHR ''(''")
    case True
    with 2 have "length (snd cur') < length (snd (skipWhitespaces (Suc start, cs)))"
      by (simp add: parseToken.psimps)
    moreover have "length (snd (skipWhitespaces (Suc start, cs))) \<le> length cs"
      using length_skipWhitespaces [of "(Suc start, cs)"] by simp
    ultimately show ?thesis by simp
  next
    case False
    with 2 show ?thesis
      using parseLiteral_consumes [of "(start, c # cs)" t cur'] by (simp add: parseToken.psimps)
  qed
next
  case (3 operationAtStart startPos tokens operationStrings start)
  then show ?case by (simp add: parseOperation.psimps)
next
  case (4 operationAtStart startPos tokens operationStrings start c cs)
  note dom = "4.hyps" and eq = "4.prems"
  show ?case
  proof (cases "c = CHR '')''")
    case True
    with dom eq show ?thesis
      by (auto simp: parseOperation.psimps split: sum.splits)
  next
    case False
    from dom eq False obtain tok cur1 where
      tk: "parseToken operationAtStart (start, c # cs) = Inr (tok, cur1)"
      by (auto simp: parseOperation.psimps split: sum.splits)
    have l1: "length (snd cur1) < length (c # cs)"
      using "4.IH"(1) [OF False tk] by simp
    have l2: "length (snd (skipWhitespaces cur1)) \<le> length (snd cur1)"
      by (rule length_skipWhitespaces)
    show ?thesis
    proof (cases tok)
      case (Tree n)
      with dom eq False tk have
        "parseOperation operationAtStart startPos (tokens @ [n]) operationStrings
           (skipWhitespaces cur1) = Inr (t, cur')"
        by (simp add: parseOperation.psimps)
      from "4.IH"(2) [OF False tk refl Tree this]
      show ?thesis using l1 l2 by simp
    next
      case (OperationString x)
      with dom eq False tk have
        "parseOperation operationAtStart startPos tokens
           (operationStrings @ [(x, length tokens)]) (skipWhitespaces cur1) = Inr (t, cur')"
        by (simp add: parseOperation.psimps)
      from "4.IH"(3) [OF False tk refl OperationString this]
      show ?thesis using l1 l2 by simp
    qed
  qed
qed

lemma parse_step_decreases:
  "parseToken_parseOperation_dom (Inl (b, cur)) \<Longrightarrow> parseToken b cur = Inr (t, cur') \<Longrightarrow>
     length (snd (skipWhitespaces cur')) < length (snd cur)"
  using parse_consumes_dom(1) [of b cur t cur'] length_skipWhitespaces [of cur'] by simp

termination parseToken
  apply (relation "measure (\<lambda>x. case x of
          Inl (b, cur) \<Rightarrow> 2 * length (snd cur)
        | Inr (b, sp, ts, ops, cur) \<Rightarrow> 2 * length (snd cur) + 1)")
  subgoal by simp
  subgoal for b start c cs
    using length_skipWhitespaces [of "(Suc start, cs)"] by simp
  subgoal by simp
  subgoal for b sp ts ops start c cs x xa y
    using parse_step_decreases [of b "(start, c # cs)" xa y] by simp
  subgoal for b sp ts ops start c cs x xa y
    using parse_step_decreases [of b "(start, c # cs)" xa y] by simp
  done

definition parseWithBrackets :: "bool \<Rightarrow> string \<Rightarrow> error + node" where
  "parseWithBrackets operationAtStart expression =
     (case parseToken operationAtStart (skipWhitespaces (0, expression)) of
        Inl e \<Rightarrow> Inl e
      | Inr (res, cur) \<Rightarrow>
          (case skipWhitespaces cur of
             (start, rest) \<Rightarrow>
               if rest \<noteq> [] then
                 Inl (InvalidFormatError ''Expected end of expression'' (Some start))
               else
                 (case res of
                    OperationString s \<Rightarrow>
                      Inl (InvalidFormatError
                             ''Invalid expression which contains only operation'' None)
                  | Tree n \<Rightarrow> Inr n)))"

definition parsePrefix :: "string \<Rightarrow> error + node" where
  "parsePrefix = parseWithBrackets True"

definition parsePostfix :: "string \<Rightarrow> error + node" where
  "parsePostfix = parseWithBrackets False"

section \<open>The flat parser\<close>

text \<open>One turn of the loop of \<^verbatim>\<open>parse\<close>: the stack after the token.\<close>

definition parseStep :: "node list \<Rightarrow> string \<Rightarrow> error + node list" where
  "parseStep stack token =
     (if operations token \<noteq> None then
        (case splice_js stack (arityOf token) of
           (remaining, removed) \<Rightarrow>
             bind (construct (operations token) removed) (\<lambda>n. Inr (remaining @ [n])))
      else if token \<in> set vars then Inr (stack @ [Variable token])
      else if \<not> isNaN token then Inr (stack @ [Const (parseInt token)])
      else Inr stack)"

fun parseLoop :: "node list \<Rightarrow> string list \<Rightarrow> error + node list" where
  "parseLoop stack [] = Inr stack"
| "parseLoop stack (token # tokens) =
     bind (parseStep stack token) (\<lambda>stack'. parseLoop stack' tokens)"

text \<open>The result is \<^verbatim>\<open>stack[0]\<close>: \<open>None\<close> is \<^verbatim>\<open>undefined\<close>, for an empty stack.\<close>

definition parse :: "string \<Rightarrow> error + node option" where
  "parse expression =
     bind (parseLoop [] (split_ws [] (trim expression)))
       (\<lambda>stack. Inr (case stack of [] \<Rightarrow> None | n # _ \<Rightarrow> Some n))"

text \<open>\<^verbatim>\<open>parse(expression).evaluate(...varValues)\<close>, as a caller writes it: the method call on
  \<^verbatim>\<open>undefined\<close> is a type error.\<close>

definition evaluateParsed :: "(opsym \<Rightarrow> 'v jsvalue list \<Rightarrow> 'v jsvalue) \<Rightarrow> error + node option
                               \<Rightarrow> 'v jsvalue list \<Rightarrow> error + 'v jsvalue" where
  "evaluateParsed operation res varValues =
     bind res (\<lambda>r. case r of None \<Rightarrow> Inl TypeError
                    | Some n \<Rightarrow> evaluate operation n varValues)"

section \<open>Evaluating the definitions on concrete inputs\<close>

lemmas js_defs =
  isWhitespaceChar_def trim_def isDigit_def digitValue_def digitChar_def isHexDigit_def
  hexValue_def isOctalDigit_def isBinaryDigit_def decimalValue_def hexadecimalValue_def
  allDigits1_def signedInteger_def exponentPartOpt_def strUnsignedDecimalLiteral_def
  strDecimalLiteral_def nonDecimalIntegerLiteral_def isNaN_def parseInt_def toDouble_def
  positiveToString_def spliceStart_def splice_js_def vars_def bind_def operationsTable_def
  operations_def arityOf_def tokenChar_def parseLiteral_def buildOperation_def
  parseWithBrackets_def parsePrefix_def parsePostfix_def parseStep_def parse_def
  evaluateParsed_def evaluateConst_def evaluateVariable_def at_index_def sumOfOperands_def
  Square_def
  Let_def ZERO_def ONE_def TWO_def

lemmas js_eval = js_defs decimal.simps

section \<open>Predicates of the properties\<close>



text \<open>
  The invariant of the operation nodes of a tree: an operation of arity 0 has at least one
  operand, every other operation has as many operands as its arity says.
\<close>

fun arityInvariant :: "node \<Rightarrow> bool" where
  "arityInvariant (Operation f operands) =
     ((if arity f = 0 then operands \<noteq> [] else length operands = arity f)
      \<and> list_all arityInvariant operands)"
| "arityInvariant (Const v) = True"
| "arityInvariant (Variable name) = True"
| "arityInvariant PlainObject = True"

text \<open>
  The trees that the bracketed parsers build: the invariant of the operation nodes, the
  variables among \<^verbatim>\<open>x\<close>, \<^verbatim>\<open>y\<close> and \<^verbatim>\<open>z\<close>, and no object that is not a node.
\<close>

fun wellFormed :: "node \<Rightarrow> bool" where
  "wellFormed (Const v) = True"
| "wellFormed (Variable name) = (name \<in> set vars)"
| "wellFormed (Operation f operands) =
     (operands \<noteq> [] \<and> (arity f = 0 \<or> arity f = length operands)
      \<and> list_all wellFormed operands)"
| "wellFormed PlainObject = False"

text \<open>
  The trees whose constants are integers below \<open>2 ^ 53\<close> in magnitude, with either
  sign.
\<close>

fun safeConstants :: "node \<Rightarrow> bool" where
  "safeConstants (Const v) = (case v of Num neg n \<Rightarrow> n < 2 ^ 53 | _ \<Rightarrow> False)"
| "safeConstants (Variable name) = True"
| "safeConstants (Operation f operands) = list_all safeConstants operands"
| "safeConstants PlainObject = True"

text \<open>
  The text that \<^verbatim>\<open>prefix()\<close> (for \<open>True\<close>) or \<^verbatim>\<open>postfix()\<close> (for \<open>False\<close>) gives for a tree
  of nodes.
\<close>

fun nodeText :: "bool \<Rightarrow> node \<Rightarrow> string" where
  "nodeText operationAtStart (Const v) = numToString v"
| "nodeText operationAtStart (Variable name) = name"
| "nodeText operationAtStart (Operation f operands) =
     (if operationAtStart
      then ''('' @ operationString f @ '' '' @ join (map (nodeText operationAtStart) operands)
             @ '')''
      else ''('' @ join (map (nodeText operationAtStart) operands) @ '' ''
             @ operationString f @ '')'')"
| "nodeText operationAtStart PlainObject = []"

text \<open>The tree with every negative zero replaced by zero: both are written \<^verbatim>\<open>0\<close>.\<close>

fun canonical :: "node \<Rightarrow> node" where
  "canonical (Const v) = Const (case v of Num neg n \<Rightarrow> Num (neg \<and> n \<noteq> 0) n | _ \<Rightarrow> v)"
| "canonical (Variable name) = Variable name"
| "canonical (Operation f operands) = Operation f (map canonical operands)"
| "canonical PlainObject = PlainObject"

section \<open>Properties of the definitions\<close>

subsection \<open>Differentiation of a sum\<close>

lemma diff_foldl_Add:
  "diff a v = Inr da \<Longrightarrow> list_all2 (\<lambda>x d. diff x v = Inr d) xs ds \<Longrightarrow>
     diff (foldl (\<lambda>x y. Operation Add [x, y]) a xs) v
       = Inr (foldl (\<lambda>x y. Operation Add [x, y]) da ds)"
proof (induction xs arbitrary: a da ds)
  case Nil
  then show ?case by simp
next
  case (Cons x xs)
  from Cons.prems(2) obtain d ds' where ds: "ds = d # ds'" and d: "diff x v = Inr d"
    and rest: "list_all2 (\<lambda>x d. diff x v = Inr d) xs ds'"
    by (auto simp: list_all2_Cons1)
  have "diff (Operation Add [a, x]) v = Inr (Operation Add [da, d])"
    using Cons.prems(1) d by (simp add: bind_def)
  from Cons.IH [OF this rest] show ?case by (simp add: ds)
qed

subsection \<open>Decimal digits\<close>

lemma digitChar_facts:
  assumes "d < 10"
  shows "isDigit (digitChar d)" and "digitValue (digitChar d) = d"
proof -
  from assms have "d \<in> {0, 1, 2, 3, 4, 5, 6, 7, 8, 9}" by auto
  then show "isDigit (digitChar d)" and "digitValue (digitChar d) = d"
    by (auto simp: isDigit_def digitChar_def digitValue_def)
qed

lemma decimal_not_empty: "decimal n \<noteq> []"
  by (subst decimal.simps) simp

lemma decimal_all_digits: "list_all isDigit (decimal n)"
proof (induction n rule: decimal.induct)
  case (1 n)
  show ?case
  proof (cases "n < 10")
    case True
    then show ?thesis by (subst decimal.simps) (simp add: digitChar_facts)
  next
    case False
    with 1 show ?thesis by (subst decimal.simps) (simp add: digitChar_facts)
  qed
qed

lemma decimalValue_snoc: "decimalValue (ds @ [c]) = 10 * decimalValue ds + digitValue c"
  by (simp add: decimalValue_def)

lemma decimalValue_decimal: "decimalValue (decimal n) = n"
proof (induction n rule: decimal.induct)
  case (1 n)
  show ?case
  proof (cases "n < 10")
    case True
    then show ?thesis
      by (subst decimal.simps) (simp add: decimalValue_def digitChar_facts)
  next
    case False
    with 1 have "decimalValue (decimal (n div 10)) = n div 10" by simp
    with False show ?thesis
      by (subst decimal.simps) (simp add: decimalValue_snoc digitChar_facts)
  qed
qed

lemma isDigit_tokenChar: "isDigit c \<Longrightarrow> tokenChar c"
  by (auto simp: isDigit_def tokenChar_def isWhitespaceChar_def)

lemma isDigit_not_ws: "isDigit c \<Longrightarrow> \<not> isWhitespaceChar c"
  by (auto simp: isDigit_def isWhitespaceChar_def)

subsection \<open>Reading one token\<close>

lemma skipWhitespaces_id:
  "s = [] \<or> \<not> isWhitespaceChar (hd s) \<Longrightarrow> skipWhitespaces (p, s) = (p, s)"
  by (cases s) auto

lemma takeWhile_token:
  "list_all tokenChar t \<Longrightarrow> r = [] \<or> \<not> tokenChar (hd r) \<Longrightarrow> takeWhile tokenChar (t @ r) = t"
proof (induction t)
  case Nil
  then show ?case by (cases r) auto
next
  case (Cons a t)
  then show ?case by simp
qed

lemma dropWhile_token:
  "list_all tokenChar t \<Longrightarrow> r = [] \<or> \<not> tokenChar (hd r) \<Longrightarrow> dropWhile tokenChar (t @ r) = r"
proof (induction t)
  case Nil
  then show ?case by (cases r) auto
next
  case (Cons a t)
  then show ?case by simp
qed

lemma vars_isNaN: "t \<in> set vars \<Longrightarrow> isNaN t"
  by (auto simp: js_eval)

text \<open>What \<open>parseLiteral\<close> makes of a token \<open>t\<close> that ends at a bracket, at white space or
  at the end of the input.\<close>

lemma parseLiteral_token:
  assumes "t \<noteq> []" and "list_all tokenChar t" and "r = [] \<or> \<not> tokenChar (hd r)"
  shows "parseLiteral (p, t @ r) =
     (if t \<in> set vars then Inr (Tree (Variable t), (p + length t, r))
      else if \<not> isNaN t then Inr (Tree (Const (parseInt t)), (p + length t, r))
      else if operations t \<noteq> None then Inr (OperationString t, (p + length t, r))
      else Inl (InvalidFormatError (''Unknown token: '' @ t) (Some p)))"
  using assms by (simp add: parseLiteral_def takeWhile_token dropWhile_token)

lemma parseToken_literal:
  "s = [] \<or> hd s \<noteq> CHR ''('' \<Longrightarrow> parseToken b (p, s) = parseLiteral (p, s)"
  by (cases s) auto

lemma tokenChar_hd:
  "t \<noteq> [] \<Longrightarrow> list_all tokenChar t \<Longrightarrow>
     \<not> isWhitespaceChar (hd (t @ r)) \<and> hd (t @ r) \<noteq> CHR ''('' \<and> hd (t @ r) \<noteq> CHR '')''"
  by (cases t) (auto simp: tokenChar_def)


subsection \<open>Digit sequences as tokens\<close>

lemma trim_id:
  "s = [] \<or> (\<not> isWhitespaceChar (hd s) \<and> \<not> isWhitespaceChar (last s)) \<Longrightarrow> trim s = s"
proof (cases s)
  case Nil
  then show ?thesis by (simp add: trim_def)
next
  case (Cons c cs)
  assume "s = [] \<or> (\<not> isWhitespaceChar (hd s) \<and> \<not> isWhitespaceChar (last s))"
  with Cons have h: "\<not> isWhitespaceChar (hd s)" and l: "\<not> isWhitespaceChar (last s)" by auto
  have 1: "dropWhile isWhitespaceChar s = s" using Cons h by simp
  have "s \<noteq> []" using Cons by simp
  then have "hd (rev s) = last s" by (simp add: hd_rev)
  then have 2: "dropWhile isWhitespaceChar (rev s) = rev s"
    using l by (simp only: dropWhile_eq_self_iff) simp
  show ?thesis by (simp add: trim_def 1 2)
qed

lemma digits_ends:
  assumes "ds \<noteq> []" and "list_all isDigit ds"
  shows "isDigit (hd ds)" and "isDigit (last ds)"
  using assms by (auto simp: list_all_iff)

lemma takeWhile_digits: "list_all isDigit ds \<Longrightarrow> takeWhile isDigit ds = ds"
  by (induction ds) auto

lemma dropWhile_digits: "list_all isDigit ds \<Longrightarrow> dropWhile isDigit ds = []"
  by (induction ds) auto

lemma digits_unsigned_literal:
  "ds \<noteq> [] \<Longrightarrow> list_all isDigit ds \<Longrightarrow> strUnsignedDecimalLiteral ds"
  by (simp add: strUnsignedDecimalLiteral_def takeWhile_digits dropWhile_digits)

lemma isDigit_not_sign: "isDigit c \<Longrightarrow> c \<noteq> CHR ''+'' \<and> c \<noteq> CHR ''-''"
  by (auto simp: isDigit_def)

lemma isNaN_digits:
  assumes "ds \<noteq> []" and "list_all isDigit ds"
  shows "\<not> isNaN ds" and "\<not> isNaN (CHR ''-'' # ds)" and "\<not> isNaN (CHR ''+'' # ds)"
proof -
  note e = digits_ends [OF assms]
  have t0: "trim ds = ds"
    using e assms(1) by (intro trim_id) (simp add: isDigit_not_ws)
  have l: "last (c # ds) = last ds" for c using assms(1) by simp
  have t1: "trim (CHR ''-'' # ds) = CHR ''-'' # ds"
    using e by (intro trim_id) (simp add: l isDigit_not_ws, simp add: isWhitespaceChar_def)
  have t2: "trim (CHR ''+'' # ds) = CHR ''+'' # ds"
    using e by (intro trim_id) (simp add: l isDigit_not_ws, simp add: isWhitespaceChar_def)
  have u: "strUnsignedDecimalLiteral ds" by (rule digits_unsigned_literal [OF assms])
  have d: "strDecimalLiteral ds"
    using assms(1) u isDigit_not_sign [OF e(1)] by (cases ds) (auto simp: strDecimalLiteral_def)
  show "\<not> isNaN ds" by (simp add: isNaN_def t0 d)
  show "\<not> isNaN (CHR ''-'' # ds)" by (simp add: isNaN_def t1 strDecimalLiteral_def u)
  show "\<not> isNaN (CHR ''+'' # ds)" by (simp add: isNaN_def t2 strDecimalLiteral_def u)
qed

lemma digits_no_hex_prefix:
  "list_all isDigit ds \<Longrightarrow> take 2 ds \<noteq> ''0x'' \<and> take 2 ds \<noteq> ''0X''"
  by (cases ds; cases "tl ds") (auto simp: isDigit_def)

lemma parseInt_digits:
  assumes "ds \<noteq> []" and "list_all isDigit ds"
  shows "parseInt ds = toDouble False (decimalValue ds)"
    and "parseInt (CHR ''-'' # ds) = toDouble True (decimalValue ds)"
    and "parseInt (CHR ''+'' # ds) = toDouble False (decimalValue ds)"
proof -
  note e = digits_ends [OF assms]
  have w: "\<not> isWhitespaceChar (hd ds)" using e by (simp add: isDigit_not_ws)
  have s: "hd ds \<noteq> CHR ''+''" "hd ds \<noteq> CHR ''-''" using isDigit_not_sign [OF e(1)] by auto
  note h = digits_no_hex_prefix [OF assms(2)]
  show "parseInt ds = toDouble False (decimalValue ds)"
    using assms w s h by (cases ds) (auto simp: parseInt_def Let_def takeWhile_digits)
  show "parseInt (CHR ''-'' # ds) = toDouble True (decimalValue ds)"
    using assms h by (auto simp: parseInt_def Let_def takeWhile_digits isWhitespaceChar_def)
  show "parseInt (CHR ''+'' # ds) = toDouble False (decimalValue ds)"
    using assms h by (auto simp: parseInt_def Let_def takeWhile_digits isWhitespaceChar_def)
qed

lemma digits_token:
  assumes "list_all isDigit ds"
  shows "list_all tokenChar ds" and "list_all tokenChar (CHR ''-'' # ds)"
    and "list_all tokenChar (CHR ''+'' # ds)"
  using assms by (auto simp: list_all_iff isDigit_tokenChar) (simp_all add: tokenChar_def isWhitespaceChar_def)

subsection \<open>The cursor stays inside the expression\<close>




subsection \<open>The errors of the parser and their positions\<close>



lemma construct_registered:
  "arityOf s = Some a \<Longrightarrow> \<exists>f. operations s = Some (Registered f) \<and> arity f = a"
  by (auto simp: arityOf_def split: option.splits property.splits)



subsection \<open>The trees of the bracketed parsers\<close>

lemma wellFormed_arityInvariant: "wellFormed t \<Longrightarrow> arityInvariant t"
proof (induction t)
  case (Operation f operands)
  then have "list_all arityInvariant operands" by (auto simp: list_all_iff)
  with Operation.prems show ?case by (cases f) auto
qed simp_all

lemma parseLiteral_wellFormed:
  "parseLiteral cur = Inr (Tree t, cur') \<Longrightarrow> wellFormed t"
  by (auto simp: parseLiteral_def Let_def split: if_splits)

lemma buildOperation_wellFormed:
  assumes "buildOperation b sp ts ops = Inr n" and "list_all wellFormed ts"
  shows "wellFormed n"
proof -
  from assms(1) have ne: "ts \<noteq> []"
    and ar: "arityOf (fst (hd ops)) = Some 0 \<or> arityOf (fst (hd ops)) = Some (length ts)"
    and c: "construct (operations (fst (hd ops))) ts = Inr n"
    by (auto simp: buildOperation_def Let_def split: if_splits)
  from ar obtain f where f: "operations (fst (hd ops)) = Some (Registered f)"
    and a: "arity f = 0 \<or> arity f = length ts"
    using construct_registered by blast
  from c f have "n = Operation f ts" by simp
  with ne a assms(2) show ?thesis by simp
qed

lemma parse_wellFormed:
  "parseToken b cur = Inr (Tree t, cur') \<Longrightarrow> wellFormed t"
  "parseOperation b sp ts ops cur = Inr (tok, cur') \<Longrightarrow> list_all wellFormed ts \<Longrightarrow>
     (\<exists>t. tok = Tree t \<and> wellFormed t)"
proof (induction b cur and b sp ts ops cur arbitrary: t cur' and tok cur'
       rule: parseToken_parseOperation.induct)
  case (1 operationAtStart start)
  then show ?case using parseLiteral_wellFormed [of "(start, [])" t cur'] by simp
next
  case (2 operationAtStart start c cs)
  show ?case
  proof (cases "c = CHR ''(''")
    case True
    with 2 show ?thesis by fastforce
  next
    case False
    with 2 show ?thesis using parseLiteral_wellFormed [of "(start, c # cs)" t cur'] by simp
  qed
next
  case (3 operationAtStart startPos tokens operationStrings start)
  then show ?case by simp
next
  case (4 operationAtStart startPos tokens operationStrings start c cs)
  note eq = "4.prems"(1) and wf = "4.prems"(2)
  show ?case
  proof (cases "c = CHR '')''")
    case True
    with eq obtain n where
      b: "buildOperation operationAtStart startPos tokens operationStrings = Inr n"
      and t: "tok = Tree n"
      by (auto split: sum.splits)
    from buildOperation_wellFormed [OF b wf] t show ?thesis by simp
  next
    case False
    from eq False obtain tk cur1 where
      tk: "parseToken operationAtStart (start, c # cs) = Inr (tk, cur1)"
      by (auto split: sum.splits)
    show ?thesis
    proof (cases tk)
      case (Tree n)
      with eq False tk have r:
        "parseOperation operationAtStart startPos (tokens @ [n]) operationStrings
           (skipWhitespaces cur1) = Inr (tok, cur')"
        by simp
      have "wellFormed n" using "4.IH"(1) [OF False] tk Tree by simp
      with wf have "list_all wellFormed (tokens @ [n])" by simp
      from "4.IH"(2) [OF False tk refl Tree r this] show ?thesis .
    next
      case (OperationString x)
      with eq False tk have r:
        "parseOperation operationAtStart startPos tokens
           (operationStrings @ [(x, length tokens)]) (skipWhitespaces cur1) = Inr (tok, cur')"
        by simp
      from "4.IH"(3) [OF False tk refl OperationString r wf] show ?thesis .
    qed
  qed
qed

lemma parseWithBrackets_wellFormed:
  "parseWithBrackets b s = Inr t \<Longrightarrow> wellFormed t"
proof -
  assume a: "parseWithBrackets b s = Inr t"
  then obtain cur where "parseToken b (skipWhitespaces (0, s)) = Inr (Tree t, cur)"
    by (auto simp: parseWithBrackets_def split: sum.splits prod.splits if_splits token.splits)
  then show ?thesis by (rule parse_wellFormed(1))
qed

subsection \<open>Rendering a tree and reading it back\<close>

lemma sequence_map_Inr:
  "(\<And>x. x \<in> set xs \<Longrightarrow> g x = Inr (h x)) \<Longrightarrow> sequence (map g xs) = Inr (map h xs)"
  by (induction xs) (simp_all add: bind_def)

lemma prefix_wellFormed: "wellFormed t \<Longrightarrow> prefix t = Inr (nodeText True t)"
proof (induction t)
  case (Operation f operands)
  have "sequence (map prefix operands) = Inr (map (nodeText True) operands)"
    using Operation by (intro sequence_map_Inr) (auto simp: list_all_iff)
  then show ?case by (simp add: bind_def)
qed simp_all

lemma postfix_wellFormed: "wellFormed t \<Longrightarrow> postfix t = Inr (nodeText False t)"
proof (induction t)
  case (Operation f operands)
  have "sequence (map postfix operands) = Inr (map (nodeText False) operands)"
    using Operation by (intro sequence_map_Inr) (auto simp: list_all_iff)
  then show ?case by (simp add: bind_def)
qed simp_all

lemma numToString_canonical:
  "numToString (case v of Num neg n \<Rightarrow> Num (neg \<and> n \<noteq> 0) n | _ \<Rightarrow> v) = numToString v"
  by (cases v) auto

lemma nodeText_canonical: "nodeText b (canonical t) = nodeText b t"
proof (induction t)
  case (Operation f operands)
  then have "map (nodeText b \<circ> canonical) operands = map (nodeText b) operands"
    by (simp cong: map_cong)
  then have "join (map (nodeText b \<circ> canonical) operands) = join (map (nodeText b) operands)"
    by (rule arg_cong)
  then show ?case by (cases b) simp_all
qed (simp_all add: numToString_canonical)

lemma wellFormed_canonical: "wellFormed t \<Longrightarrow> wellFormed (canonical t)"
  by (induction t) (auto simp: list_all_iff)

text \<open>The token of a number below \<open>2 ^ 53\<close> reads back as the same number; the negative
  zero reads back as zero.\<close>

lemma toDouble_small: "n < 2 ^ 53 \<Longrightarrow> toDouble neg n = Num neg n"
  by (simp add: toDouble_def)

lemma number_token:
  assumes "n < 2 ^ 53"
  shows "numToString (Num neg n) \<noteq> []"
    and "list_all tokenChar (numToString (Num neg n))"
    and "\<not> isNaN (numToString (Num neg n))"
    and "parseInt (numToString (Num neg n)) = Num (neg \<and> n \<noteq> 0) n"
proof -
  note d = decimal_not_empty [of n] decimal_all_digits [of n]
  have p: "positiveToString n = decimal n" using assms by (simp add: positiveToString_def)
  have v: "toDouble s (decimalValue (decimal n)) = Num s n" for s
    using assms by (simp add: decimalValue_decimal toDouble_small)
  have z: "numToString (Num neg 0) = ''0''" by simp
  have z1: "list_all tokenChar ''0''" "\<not> isNaN ''0''" "parseInt ''0'' = Num False 0"
    by (simp_all add: js_defs)
  show "numToString (Num neg n) \<noteq> []" using d(1) by (simp add: p)
  show "list_all tokenChar (numToString (Num neg n))"
    using digits_token [OF d(2)] z1 by (simp add: p)
  show "\<not> isNaN (numToString (Num neg n))"
    using isNaN_digits [OF d] z1 by (simp add: p)
  show "parseInt (numToString (Num neg n)) = Num (neg \<and> n \<noteq> 0) n"
    using parseInt_digits [OF d] z1 by (simp add: p v)
qed

lemma operationString_token:
  "operationString f \<noteq> []"
  "list_all tokenChar (operationString f)"
  "operationString f \<notin> set vars"
  "isNaN (operationString f)"
  "operations (operationString f) = Some (Registered f)"
  by (cases f; simp add: js_defs)+

lemma vars_token: "name \<in> set vars \<Longrightarrow> name \<noteq> [] \<and> list_all tokenChar name"
  by (auto simp: js_defs)

text \<open>A constant or a variable is read back from its text.\<close>

lemma parseToken_leaf:
  assumes "wellFormed t" and "safeConstants t" and "\<forall>f operands. t \<noteq> Operation f operands"
    and "r = [] \<or> \<not> tokenChar (hd r)"
  shows "nodeText b t \<noteq> [] \<and> list_all tokenChar (nodeText b t)
         \<and> parseToken b (p, nodeText b t @ r)
             = Inr (Tree (canonical t), (p + length (nodeText b t), r))"
proof (cases t)
  case (Const v)
  with assms(2) obtain neg n where v: "v = Num neg n" and n: "n < 2 ^ 53"
    by (cases v) auto
  note k = number_token [OF n, of neg]
  have "parseToken b (p, numToString (Num neg n) @ r)
          = parseLiteral (p, numToString (Num neg n) @ r)"
    using tokenChar_hd [OF k(1,2), of r] by (intro parseToken_literal) simp
  also have "\<dots> = Inr (Tree (Const (Num (neg \<and> n \<noteq> 0) n)),
                       (p + length (numToString (Num neg n)), r))"
    using k vars_isNaN [of "numToString (Num neg n)"]
    by (subst parseLiteral_token [OF k(1,2) assms(4)]) auto
  finally show ?thesis using Const v k by simp
next
  case (Variable name)
  with assms(1) have m: "name \<in> set vars" by simp
  note k = vars_token [OF m]
  have "parseToken b (p, name @ r) = parseLiteral (p, name @ r)"
    using tokenChar_hd [of name r] k by (intro parseToken_literal) simp
  also have "\<dots> = Inr (Tree (Variable name), (p + length name, r))"
    using k m assms(4) by (subst parseLiteral_token) auto
  finally show ?thesis using Variable k by simp
next
  case (Operation f operands)
  with assms(3) show ?thesis by simp
next
  case PlainObject
  with assms(1) show ?thesis by simp
qed

lemma skipWhitespaces_space:
  "s = [] \<or> \<not> isWhitespaceChar (hd s) \<Longrightarrow> skipWhitespaces (p, CHR '' '' # s) = (Suc p, s)"
  using skipWhitespaces_id [of s "Suc p"] by (simp add: isWhitespaceChar_def)

lemma space_no_tokenChar: "\<not> tokenChar (CHR '' '')" "\<not> tokenChar (CHR '')'')"
  by (simp_all add: tokenChar_def isWhitespaceChar_def)

lemma parseOperation_step:
  assumes "s \<noteq> []" and "hd s \<noteq> CHR '')''" and "parseToken b (q, s) = Inr (tok, cur)"
  shows "parseOperation b sp ts ops (q, s) =
     (case tok of
        Tree n \<Rightarrow> parseOperation b sp (ts @ [n]) ops (skipWhitespaces cur)
      | OperationString x \<Rightarrow> parseOperation b sp ts (ops @ [(x, length ts)]) (skipWhitespaces cur))"
  using assms by (cases s; cases tok) simp_all

lemma parseOperation_close:
  "parseOperation b sp ts ops (q, CHR '')'' # r) =
     (case buildOperation b sp ts ops of Inl e \<Rightarrow> Inl e | Inr n \<Rightarrow> Inr (Tree n, (Suc q, r)))"
  by simp

lemma buildOperation_ok:
  assumes "ts \<noteq> []" and "arity f = 0 \<or> arity f = length ts"
    and "i = (if b then 0 else length ts)"
  shows "buildOperation b sp ts [(operationString f, i)] = Inr (Operation f ts)"
  using assms by (auto simp: buildOperation_def arityOf_def operationString_token)

text \<open>The texts of the operands, joined by single spaces and followed by \<open>e\<close>, are read
  back as the operands.\<close>

lemma parseOperation_operands:
  assumes rd: "\<And>y q r'. y \<in> set ys \<Longrightarrow> r' = [] \<or> \<not> tokenChar (hd r') \<Longrightarrow>
              parseToken b (q, txt y @ r') = Inr (Tree (nrm y), (q + length (txt y), r'))"
    and hd: "\<And>y. y \<in> set ys \<Longrightarrow>
              txt y \<noteq> [] \<and> \<not> isWhitespaceChar (hd (txt y)) \<and> hd (txt y) \<noteq> CHR '')''"
    and ne: "ys \<noteq> []" and e: "e \<noteq> []" "\<not> tokenChar (hd e)"
  shows "parseOperation b sp ts ops (q, join (map txt ys) @ e) =
           parseOperation b sp (ts @ map nrm ys) ops
             (skipWhitespaces (q + length (join (map txt ys)), e))"
  using rd hd ne
proof (induction ys arbitrary: ts q)
  case Nil
  then show ?case by simp
next
  case (Cons y ys)
  note h = Cons.prems(2) [of y, simplified]
  show ?case
  proof (cases ys)
    case Nil
    have s: "txt y @ e \<noteq> []" "hd (txt y @ e) \<noteq> CHR '')''" using h by auto
    have t: "parseToken b (q, txt y @ e) = Inr (Tree (nrm y), (q + length (txt y), e))"
      using Cons.prems(1) [of y e q] e by simp
    show ?thesis
      using parseOperation_step [OF s t, of sp ts ops] Nil by simp
  next
    case (Cons y' ys')
    let ?J = "join (map txt ys)"
    have h': "txt y' \<noteq> [] \<and> \<not> isWhitespaceChar (hd (txt y'))"
      using Cons.prems(2) [of y'] Cons by simp
    have j: "join (txt y # map txt ys) = txt y @ CHR '' '' # ?J" using Cons by simp
    have jh: "?J @ e \<noteq> [] \<and> \<not> isWhitespaceChar (hd (?J @ e))"
      using h' Cons by (cases ys') auto
    have s: "txt y @ CHR '' '' # ?J @ e \<noteq> []" "hd (txt y @ CHR '' '' # ?J @ e) \<noteq> CHR '')''"
      using h by auto
    have t: "parseToken b (q, txt y @ CHR '' '' # ?J @ e)
               = Inr (Tree (nrm y), (q + length (txt y), CHR '' '' # ?J @ e))"
      using Cons.prems(1) [of y "CHR '' '' # ?J @ e" q] by (simp add: space_no_tokenChar)
    have k: "skipWhitespaces (q + length (txt y), CHR '' '' # ?J @ e)
               = (Suc (q + length (txt y)), ?J @ e)"
      using jh by (intro skipWhitespaces_space) simp
    have ih: "parseOperation b sp (ts @ [nrm y]) ops (Suc (q + length (txt y)), ?J @ e) =
           parseOperation b sp ((ts @ [nrm y]) @ map nrm ys) ops
             (skipWhitespaces (Suc (q + length (txt y)) + length ?J, e))"
      using Cons.prems Cons by (intro Cons.IH) auto
    have "parseOperation b sp ts ops (q, txt y @ CHR '' '' # ?J @ e)
            = parseOperation b sp (ts @ [nrm y]) ops
                (skipWhitespaces (q + length (txt y), CHR '' '' # ?J @ e))"
      using parseOperation_step [OF s t, of sp ts ops] by (simp only: token.case)
    also have "\<dots> = parseOperation b sp (ts @ [nrm y]) ops (Suc (q + length (txt y)), ?J @ e)"
      by (simp only: k)
    also note ih
    finally show ?thesis by (simp add: j add.assoc)
  qed
qed

lemma nodeText_hd:
  assumes "wellFormed t" and "safeConstants t"
  shows "nodeText b t \<noteq> [] \<and> \<not> isWhitespaceChar (hd (nodeText b t))
         \<and> hd (nodeText b t) \<noteq> CHR '')''"
proof (cases "\<exists>f operands. t = Operation f operands")
  case True
  then show ?thesis by (cases b) (auto simp: isWhitespaceChar_def)
next
  case False
  then have "nodeText b t \<noteq> [] \<and> list_all tokenChar (nodeText b t)"
    using parseToken_leaf [OF assms, of "[]" b 0] by simp
  then show ?thesis using tokenChar_hd [of "nodeText b t" "[]"] by simp
qed

lemma join_hd:
  "ys \<noteq> [] \<Longrightarrow> (\<And>y. y \<in> set ys \<Longrightarrow> txt y \<noteq> []) \<Longrightarrow>
     join (map txt ys) \<noteq> [] \<and> hd (join (map txt ys)) = hd (txt (hd ys))"
  by (cases ys; cases "tl ys") auto

lemma skipWhitespaces_bracket: "skipWhitespaces (q, CHR '')'' # r) = (q, CHR '')'' # r)"
  by (simp add: isWhitespaceChar_def)

text \<open>A tree of the parser with constants below \<open>2 ^ 53\<close> is read back from its text, in
  the mode of the text.\<close>

lemma parseToken_nodeText:
  "wellFormed t \<Longrightarrow> safeConstants t \<Longrightarrow> r = [] \<or> \<not> tokenChar (hd r) \<Longrightarrow>
     parseToken b (p, nodeText b t @ r) = Inr (Tree (canonical t), (p + length (nodeText b t), r))"
proof (induction t arbitrary: p r)
  case (Const v)
  then show ?case using parseToken_leaf [of "Const v" r b p] by simp
next
  case (Variable name)
  then show ?case using parseToken_leaf [of "Variable name" r b p] by simp
next
  case PlainObject
  then show ?case by simp
next
  case (Operation f xs)
  let ?J = "join (map (nodeText b) xs)"
  let ?o = "operationString f"
  let ?ts = "map canonical xs"
  from Operation.prems have ne: "xs \<noteq> []" and ar: "arity f = 0 \<or> arity f = length xs"
    and each: "\<And>y. y \<in> set xs \<Longrightarrow> wellFormed y \<and> safeConstants y"
    by (auto simp: list_all_iff)
  have rd: "\<And>y q r'. y \<in> set xs \<Longrightarrow> r' = [] \<or> \<not> tokenChar (hd r') \<Longrightarrow>
              parseToken b (q, nodeText b y @ r')
                = Inr (Tree (canonical y), (q + length (nodeText b y), r'))"
    using Operation.IH each by blast
  have hx: "\<And>y. y \<in> set xs \<Longrightarrow> nodeText b y \<noteq> []
              \<and> \<not> isWhitespaceChar (hd (nodeText b y)) \<and> hd (nodeText b y) \<noteq> CHR '')''"
    using nodeText_hd each by blast
  have jh: "?J \<noteq> [] \<and> \<not> isWhitespaceChar (hd ?J)"
    using join_hd [OF ne, of "nodeText b"] hx ne by (cases xs) auto
  note o = operationString_token [of f]
  have oh: "\<not> isWhitespaceChar (hd (?o @ s)) \<and> hd (?o @ s) \<noteq> CHR ''('' \<and> hd (?o @ s) \<noteq> CHR '')''"
    for s using tokenChar_hd [OF o(1,2)] by simp
  have ol: "s = [] \<or> \<not> tokenChar (hd s) \<Longrightarrow>
              parseToken b (q, ?o @ s) = Inr (OperationString ?o, (q + length ?o, s))" for q s
  proof -
    assume s: "s = [] \<or> \<not> tokenChar (hd s)"
    have "parseToken b (q, ?o @ s) = parseLiteral (q, ?o @ s)"
      using oh [of s] by (intro parseToken_literal) simp
    then show ?thesis using o by (simp add: parseLiteral_token [OF o(1,2) s])
  qed
  have tsne: "?ts \<noteq> []" using ne by simp
  show ?case
  proof (cases b)
    case True
    let ?R2 = "CHR '' '' # ?J @ CHR '')'' # r"
    let ?q = "Suc (Suc p + length ?o)"
    have "parseToken b (p, nodeText b (Operation f xs) @ r)
            = parseOperation b p [] [] (skipWhitespaces (Suc p, ?o @ ?R2))"
      using True by simp
    also have "\<dots> = parseOperation b p [] [] (Suc p, ?o @ ?R2)"
      using oh [of ?R2] by (simp add: skipWhitespaces_id)
    also have "\<dots> = parseOperation b p [] ([] @ [(?o, length ([] :: node list))])
                       (skipWhitespaces (Suc p + length ?o, ?R2))"
      using parseOperation_step [of "?o @ ?R2" b "Suc p" "OperationString ?o"
                                    "(Suc p + length ?o, ?R2)" p "[]" "[]"]
            oh [of ?R2] o(1) ol [of ?R2 "Suc p"]
      by (simp add: space_no_tokenChar)
    also have "\<dots> = parseOperation b p [] [(?o, 0)] (?q, ?J @ CHR '')'' # r)"
      using jh skipWhitespaces_space [of "?J @ CHR '')'' # r" "Suc p + length ?o"] by simp
    also have "\<dots> = parseOperation b p ([] @ ?ts) [(?o, 0)]
                       (skipWhitespaces (?q + length ?J, CHR '')'' # r))"
      using rd hx ne
      by (intro parseOperation_operands) (simp_all add: space_no_tokenChar)
    also have "\<dots> = parseOperation b p ?ts [(?o, 0)] (?q + length ?J, CHR '')'' # r)"
      by (simp only: skipWhitespaces_bracket append_Nil)
    also have "\<dots> = Inr (Tree (Operation f ?ts), (Suc (?q + length ?J), r))"
      using buildOperation_ok [OF tsne, of f 0 b p] ar True
      by (simp only: parseOperation_close) simp
    finally show ?thesis using True by simp
  next
    case False
    let ?R2 = "?o @ CHR '')'' # r"
    let ?q = "Suc (Suc p + length ?J)"
    have "parseToken b (p, nodeText b (Operation f xs) @ r)
            = parseOperation b p [] [] (skipWhitespaces (Suc p, ?J @ CHR '' '' # ?R2))"
      using False by simp
    also have "\<dots> = parseOperation b p [] [] (Suc p, ?J @ CHR '' '' # ?R2)"
      using jh by (simp add: skipWhitespaces_id)
    also have "\<dots> = parseOperation b p ([] @ ?ts) []
                       (skipWhitespaces (Suc p + length ?J, CHR '' '' # ?R2))"
      using rd hx ne
      by (intro parseOperation_operands) (simp_all add: space_no_tokenChar)
    also have "\<dots> = parseOperation b p ?ts [] (?q, ?R2)"
      using oh [of "CHR '')'' # r"]
            skipWhitespaces_space [of ?R2 "Suc p + length ?J"] by simp
    also have "\<dots> = parseOperation b p ?ts ([] @ [(?o, length ?ts)])
                       (skipWhitespaces (?q + length ?o, CHR '')'' # r))"
      using parseOperation_step [of ?R2 b ?q "OperationString ?o"
                                    "(?q + length ?o, CHR '')'' # r)" p ?ts "[]"]
            oh [of "CHR '')'' # r"] o(1) ol [of "CHR '')'' # r" ?q]
      by (simp add: space_no_tokenChar)
    also have "\<dots> = parseOperation b p ?ts [(?o, length ?ts)] (?q + length ?o, CHR '')'' # r)"
      by (simp only: skipWhitespaces_bracket append_Nil)
    also have "\<dots> = Inr (Tree (Operation f ?ts), (Suc (?q + length ?o), r))"
      using buildOperation_ok [OF tsne, of f "length ?ts" b p] ar False
      by (simp only: parseOperation_close) simp
    finally show ?thesis using False by simp
  qed
qed

lemma parseWithBrackets_nodeText:
  assumes "wellFormed t" and "safeConstants t"
  shows "parseWithBrackets b (nodeText b t) = Inr (canonical t)"
proof -
  have 1: "skipWhitespaces (0, nodeText b t) = (0, nodeText b t)"
    using nodeText_hd [OF assms, of b] by (simp add: skipWhitespaces_id)
  have 2: "parseToken b (0, nodeText b t)
             = Inr (Tree (canonical t), (length (nodeText b t), []))"
    using parseToken_nodeText [OF assms, of "[]" b 0] by simp
  show ?thesis by (simp add: parseWithBrackets_def 1 2)
qed

subsection \<open>When the flat parser raises\<close>

lemma parseStep_raises:
  "parseStep stack token = Inl e \<longleftrightarrow> operations token = Some NotAConstructor \<and> e = TypeError"
proof (cases "operations token")
  case None
  then show ?thesis by (simp add: parseStep_def)
next
  case (Some p)
  then show ?thesis
    by (cases p) (auto simp: parseStep_def bind_def split: prod.splits)
qed

lemma parseLoop_raises:
  "parseLoop stack tokens = Inl e \<longleftrightarrow>
     (\<exists>t \<in> set tokens. operations t = Some NotAConstructor) \<and> e = TypeError"
proof (induction tokens arbitrary: stack)
  case Nil
  show ?case by simp
next
  case (Cons token tokens)
  show ?case
  proof (cases "parseStep stack token")
    case (Inl e')
    then show ?thesis using parseStep_raises [of stack token e'] by (auto simp: bind_def)
  next
    case (Inr stack')
    then have "operations token \<noteq> Some NotAConstructor"
      using parseStep_raises [of stack token TypeError] by auto
    with Inr Cons.IH [of stack'] show ?thesis by (simp add: bind_def)
  qed
qed

text \<open>
  \<^verbatim>\<open>parse\<close> raises nothing but a type error, and raises it exactly when a token names an
  inherited property that is not a constructor; on every other input it returns.
\<close>

lemma parse_raises:
  "parse s = Inl e \<longleftrightarrow>
     (\<exists>t \<in> set (split_ws [] (trim s)). operations t = Some NotAConstructor) \<and> e = TypeError"
proof (cases "parseLoop [] (split_ws [] (trim s))")
  case (Inl e')
  then show ?thesis
    using parseLoop_raises [of "[]" "split_ws [] (trim s)" e'] by (auto simp: parse_def bind_def)
next
  case (Inr stack)
  then show ?thesis
    using parseLoop_raises [of "[]" "split_ws [] (trim s)" TypeError]
    by (auto simp: parse_def bind_def)
qed

section \<open>The claims\<close>

text \<open>
  C1 (as amended). In the flat parser an operation takes as many operands off the stack as
  its arity says, and the arity of \<^verbatim>\<open>mean\<close> and \<^verbatim>\<open>var\<close> is 0: the token pushes a node
  without operands and leaves the stack below it as it was. The result of \<^verbatim>\<open>parse\<close> is
  the bottom of the stack, so \<^verbatim>\<open>parse("2 3 6 mean")\<close> and \<^verbatim>\<open>parse("2 5 11 var")\<close> are both
  the constant 2, and both evaluate to 2, whatever the evaluation functions are.
\<close>

theorem C1_flat_parse_variadic:
  "parseStep stack ''mean'' = Inr (stack @ [Operation Mean []])
   \<and> parseStep stack ''var'' = Inr (stack @ [Operation Var []])
   \<and> parse ''2 3 6 mean'' = Inr (Some (Const (Num False 2)))
   \<and> parse ''2 5 11 var'' = Inr (Some (Const (Num False 2)))
   \<and> evaluateParsed operation (parse ''2 3 6 mean'') [] = Inr (Number (Num False 2))
   \<and> evaluateParsed operation (parse ''2 5 11 var'') [] = Inr (Number (Num False 2))"
  by (simp add: js_eval)

text \<open>
  C1 as stated fails: \<^verbatim>\<open>parse("2 3 6 mean")\<close> and \<^verbatim>\<open>parse("2 5 11 var")\<close> are the constant 2,
  and the \<^verbatim>\<open>evaluate\<close> of that constant gives neither 3 nor 14.
\<close>

theorem C1_counterexample:
  "parse ''2 3 6 mean'' = Inr (Some (Const (Num False 2)))
   \<and> evaluateConst (Num False 2) [] \<noteq> (Inr (Number (Num False 3)) :: error + unit jsvalue)
   \<and> parse ''2 5 11 var'' = Inr (Some (Const (Num False 2)))
   \<and> evaluateConst (Num False 2) [] \<noteq> (Inr (Number (Num False 14)) :: error + unit jsvalue)"
  by (simp add: js_eval)

text \<open>
  C2 (as amended). Every operation node of a tree that \<^verbatim>\<open>parsePrefix\<close> or \<^verbatim>\<open>parsePostfix\<close>
  returns has as many operands as the arity registered for its symbol, and at least one
  operand when that arity is 0 (\<^verbatim>\<open>mean\<close> and \<^verbatim>\<open>var\<close>). The flat parser \<^verbatim>\<open>parse\<close> makes no
  such check: it gives an operation the operands that the stack holds.
\<close>

theorem C2_bracketed_arity:
  "(parsePrefix s = Inr t \<longrightarrow> arityInvariant t) \<and> (parsePostfix s = Inr t \<longrightarrow> arityInvariant t)"
  by (auto simp: parsePrefix_def parsePostfix_def
           dest!: parseWithBrackets_wellFormed wellFormed_arityInvariant)

text \<open>C2 at \<^verbatim>\<open>(+ x (mean 1 2 3))\<close>.\<close>

theorem C2_witness:
  "parsePrefix ''(+ x (mean 1 2 3))'' =
     Inr (Operation Add [Variable ''x'',
            Operation Mean [Const (Num False 1), Const (Num False 2), Const (Num False 3)]])
   \<and> arityInvariant (Operation Add [Variable ''x'',
            Operation Mean [Const (Num False 1), Const (Num False 2), Const (Num False 3)]])"
proof -
  have p: "parsePrefix ''(+ x (mean 1 2 3))'' =
     Inr (Operation Add [Variable ''x'',
            Operation Mean [Const (Num False 1), Const (Num False 2), Const (Num False 3)]])"
    by (simp add: js_eval)
  with C2_bracketed_arity [of "''(+ x (mean 1 2 3))''"] show ?thesis by blast
qed

text \<open>
  C2 as stated fails for the flat parser: \<^verbatim>\<open>parse("+")\<close> is an \<^verbatim>\<open>Add\<close> node without operands
  and \<^verbatim>\<open>parse("1 +")\<close> an \<^verbatim>\<open>Add\<close> node with one operand, and the arity of \<^verbatim>\<open>+\<close> is 2.
\<close>

theorem C2_counterexample:
  "parse ''+'' = Inr (Some (Operation Add [])) \<and> \<not> arityInvariant (Operation Add [])
   \<and> parse ''1 +'' = Inr (Some (Operation Add [Const (Num False 1)]))
   \<and> \<not> arityInvariant (Operation Add [Const (Num False 1)])"
  by (simp add: js_eval)

text \<open>
  C3 (as amended). Let \<^verbatim>\<open>parsePrefix\<close> accept \<open>s\<close> with the tree \<open>t\<close>, and let every constant
  of \<open>t\<close> be an integer below \<open>2 ^ 53\<close> in magnitude. Then \<^verbatim>\<open>parsePrefix\<close> accepts the text
  of \<^verbatim>\<open>t.prefix()\<close>, the tree it builds is \<open>t\<close> with every negative zero replaced by zero,
  and its \<^verbatim>\<open>prefix()\<close> is the same text. The same holds for \<^verbatim>\<open>parsePostfix\<close> with
  \<^verbatim>\<open>postfix()\<close>.
\<close>

theorem C3_round_trip:
  "(parsePrefix s = Inr t \<and> safeConstants t \<longrightarrow>
      (\<exists>r. prefix t = Inr r \<and> parsePrefix r = Inr (canonical t)
            \<and> prefix (canonical t) = Inr r))
   \<and> (parsePostfix s = Inr t \<and> safeConstants t \<longrightarrow>
      (\<exists>r. postfix t = Inr r \<and> parsePostfix r = Inr (canonical t)
            \<and> postfix (canonical t) = Inr r))"
proof (intro conjI impI)
  assume a: "parsePrefix s = Inr t \<and> safeConstants t"
  then have wf: "wellFormed t"
    using parseWithBrackets_wellFormed [of True s t] by (simp add: parsePrefix_def)
  have "prefix t = Inr (nodeText True t)" by (rule prefix_wellFormed [OF wf])
  moreover have "parsePrefix (nodeText True t) = Inr (canonical t)"
    using parseWithBrackets_nodeText [OF wf, of True] a by (simp add: parsePrefix_def)
  moreover have "prefix (canonical t) = Inr (nodeText True t)"
    using prefix_wellFormed [OF wellFormed_canonical [OF wf]] by (simp add: nodeText_canonical)
  ultimately show "\<exists>r. prefix t = Inr r \<and> parsePrefix r = Inr (canonical t)
                       \<and> prefix (canonical t) = Inr r"
    by blast
next
  assume a: "parsePostfix s = Inr t \<and> safeConstants t"
  then have wf: "wellFormed t"
    using parseWithBrackets_wellFormed [of False s t] by (simp add: parsePostfix_def)
  have "postfix t = Inr (nodeText False t)" by (rule postfix_wellFormed [OF wf])
  moreover have "parsePostfix (nodeText False t) = Inr (canonical t)"
    using parseWithBrackets_nodeText [OF wf, of False] a by (simp add: parsePostfix_def)
  moreover have "postfix (canonical t) = Inr (nodeText False t)"
    using postfix_wellFormed [OF wellFormed_canonical [OF wf]] by (simp add: nodeText_canonical)
  ultimately show "\<exists>r. postfix t = Inr r \<and> parsePostfix r = Inr (canonical t)
                       \<and> postfix (canonical t) = Inr r"
    by blast
qed

text \<open>C3 at \<^verbatim>\<open>( - x(negate -0) )\<close>, whose constant is the negative zero.\<close>

theorem C3_witness:
  "parsePrefix ''( - x(negate -0) )'' =
     Inr (Operation Subtract [Variable ''x'', Operation Negate [Const (Num True 0)]])
   \<and> prefix (Operation Subtract [Variable ''x'', Operation Negate [Const (Num True 0)]])
       = Inr ''(- x (negate 0))''
   \<and> parsePrefix ''(- x (negate 0))'' =
       Inr (Operation Subtract [Variable ''x'', Operation Negate [Const (Num False 0)]])
   \<and> prefix (Operation Subtract [Variable ''x'', Operation Negate [Const (Num False 0)]])
       = Inr ''(- x (negate 0))''"
proof -
  let ?t = "Operation Subtract [Variable ''x'', Operation Negate [Const (Num True 0)]]"
  have p: "parsePrefix ''( - x(negate -0) )'' = Inr ?t" by (simp add: js_eval)
  have s: "safeConstants ?t" by simp
  have r: "prefix ?t = Inr ''(- x (negate 0))''" by (simp add: js_eval)
  from C3_round_trip [of "''( - x(negate -0) )''" ?t] p s
  obtain r where "prefix ?t = Inr r" and "parsePrefix r = Inr (canonical ?t)"
    and "prefix (canonical ?t) = Inr r"
    by blast
  with r p show ?thesis by simp
qed

text \<open>
  C3 as stated fails: \<^verbatim>\<open>parsePrefix\<close> accepts \<^verbatim>\<open>Infinity\<close> and makes the constant
  \<^verbatim>\<open>parseInt("Infinity")\<close> of it, which is not-a-number; its \<^verbatim>\<open>prefix()\<close> is \<^verbatim>\<open>NaN\<close>, and
  \<^verbatim>\<open>parsePrefix\<close> rejects that text as an unknown token, so the parse of the rendering
  has no rendering. The same holds for \<^verbatim>\<open>parsePostfix\<close>.
\<close>

theorem C3_counterexample:
  "parsePrefix ''Infinity'' = Inr (Const NaN) \<and> prefix (Const NaN) = Inr ''NaN''
   \<and> parsePrefix ''NaN'' = Inl (InvalidFormatError ''Unknown token: NaN'' (Some 0))
   \<and> bind (bind (bind (parsePrefix ''Infinity'') prefix) parsePrefix) prefix
       \<noteq> bind (parsePrefix ''Infinity'') prefix
   \<and> parsePostfix ''Infinity'' = Inr (Const NaN) \<and> postfix (Const NaN) = Inr ''NaN''
   \<and> parsePostfix ''NaN'' = Inl (InvalidFormatError ''Unknown token: NaN'' (Some 0))
   \<and> bind (bind (bind (parsePostfix ''Infinity'') postfix) parsePostfix) postfix
       \<noteq> bind (parsePostfix ''Infinity'') postfix"
  by (simp add: js_eval)

text \<open>
  C4. The derivative of \<^verbatim>\<open>Mean\<close> with operands \<open>xs\<close> is the derivative of the sum of the
  operands, which \<^verbatim>\<open>reduce\<close> builds by folding \<^verbatim>\<open>Add\<close> from the left over the operands
  starting from the constant zero, divided by the constant of the number of operands; the
  divisor is a constant node and is not differentiated. When every operand has a
  derivative, the dividend is the same fold over the derivatives of the operands.
\<close>

theorem C4_mean_diff:
  "diff (Operation Mean xs) v =
     bind (diff (sumOfOperands xs) v)
       (\<lambda>d. Inr (Operation Divide [d, Const (Num False (length xs))]))
   \<and> sumOfOperands xs = foldl (\<lambda>x y. Operation Add [x, y]) (Const ZERO) xs
   \<and> (list_all2 (\<lambda>x d. diff x v = Inr d) xs ds \<longrightarrow>
        diff (Operation Mean xs) v =
          Inr (Operation Divide
                 [foldl (\<lambda>x y. Operation Add [x, y]) (Const ZERO) ds,
                  Const (Num False (length xs))]))"
proof (intro conjI impI)
  assume a: "list_all2 (\<lambda>x d. diff x v = Inr d) xs ds"
  have "diff (Const ZERO) v = Inr (Const ZERO)" by simp
  from diff_foldl_Add [OF this a]
  show "diff (Operation Mean xs) v =
          Inr (Operation Divide
                 [foldl (\<lambda>x y. Operation Add [x, y]) (Const ZERO) ds,
                  Const (Num False (length xs))])"
    by (simp add: sumOfOperands_def bind_def)
qed (simp_all add: sumOfOperands_def)

text \<open>C4 at the operands \<^verbatim>\<open>x\<close>, 2 and \<^verbatim>\<open>y\<close>, differentiated by \<^verbatim>\<open>x\<close>.\<close>

theorem C4_witness:
  "diff (Operation Mean [Variable ''x'', Const TWO, Variable ''y'']) ''x'' =
     Inr (Operation Divide
            [Operation Add [Operation Add [Operation Add [Const ZERO, Const ONE], Const ZERO],
                            Const ZERO],
             Const (Num False 3)])"
proof -
  have h: "list_all2 (\<lambda>x d. diff x ''x'' = Inr d)
             [Variable ''x'', Const TWO, Variable ''y''] [Const ONE, Const ZERO, Const ZERO]"
    by simp
  have "diff (Operation Mean [Variable ''x'', Const TWO, Variable ''y'']) ''x'' =
          Inr (Operation Divide
                 [foldl (\<lambda>x y. Operation Add [x, y]) (Const ZERO)
                    [Const ONE, Const ZERO, Const ZERO],
                  Const (Num False (length [Variable ''x'', Const TWO, Variable ''y'']))])"
    using C4_mean_diff [of "[Variable ''x'', Const TWO, Variable ''y'']" "''x''"
                           "[Const ONE, Const ZERO, Const ZERO]"] h
    by blast
  then show ?thesis by simp
qed











text \<open>
  C9 (as amended). A variable evaluates to the value at the index of its name in
  \<^verbatim>\<open>["x", "y", "z"]\<close> when the name is in the list and that many values were passed. In
  every other case the result is \<^verbatim>\<open>undefined\<close>: the index of a name that is not in the
  list is \<open>-1\<close>, reading an array there gives \<^verbatim>\<open>undefined\<close>, and no error is raised.
\<close>

theorem C9_variable_evaluate:
  "evaluate operation (Variable name) varValues = evaluateVariable name varValues
   \<and> evaluateVariable name varValues =
       Inr (if name \<in> set vars \<and> nat (indexOf vars name) < length varValues
            then varValues ! nat (indexOf vars name) else Undefined)
   \<and> indexOf vars ''x'' = 0 \<and> indexOf vars ''y'' = 1 \<and> indexOf vars ''z'' = 2"
  by (auto simp add: js_eval)

text \<open>
  C9 as stated fails: a variable named \<^verbatim>\<open>w\<close> evaluates to \<^verbatim>\<open>undefined\<close>, without an
  error.
\<close>

theorem C9_counterexample:
  "evaluateVariable ''w'' [Number ONE, Number TWO, Number ZERO]
     = (Inr Undefined :: error + unit jsvalue)
   \<and> indexOf vars ''w'' = -1"
  by (simp add: js_eval)

text \<open>
  C10 fails on the code. \<^verbatim>\<open>token in operations\<close> is also true of the names that the table
  inherits from \<^verbatim>\<open>Object.prototype\<close>; for the token \<^verbatim>\<open>toString\<close> the flat parser calls
  \<^verbatim>\<open>new\<close> on a function that is not a constructor, and \<^verbatim>\<open>parse("toString")\<close> ends with a
  type error instead of returning. On the inputs without such a token it returns, and it
  never raises a format or operation error (\<open>parse_raises\<close>).
\<close>

theorem C10_parse_toString:
  "parse ''toString'' = Inl TypeError"
  by (simp add: js_eval)

end
